theory Spec2Isabelle
  imports Main "HOL-Library.Word" "HOL-Library.Code_Target_Numeral"
begin

unbundle bit_operations_syntax

section \<open>The shared lock table (engine/shared/http.cpp, lines 20--45)\<close>

text \<open>
  \<^verbatim>\<open>static LOCK gs_aLocks[CURL_LOCK_DATA_LAST + 1];\<close>

  \<^verbatim>\<open>CURL_LOCK_DATA_LAST\<close> is an enumerator of libcurl's \<^verbatim>\<open>curl_lock_data\<close>; its value
  depends on the libcurl headers the program is built against, so it is a parameter of
  the model. The C \<^verbatim>\<open>int\<close> argument is an \<open>int\<close>: the function only compares it, so
  no arithmetic can overflow.
\<close>

definition gs_aLocks_size :: "int \<Rightarrow> int" where
  "gs_aLocks_size CURL_LOCK_DATA_LAST = CURL_LOCK_DATA_LAST + 1"

definition GetLockIndex :: "int \<Rightarrow> int \<Rightarrow> int" where
  "GetLockIndex CURL_LOCK_DATA_LAST Data =
     (let Data' = (if \<not> (0 \<le> Data \<and> Data < CURL_LOCK_DATA_LAST)
                   then CURL_LOCK_DATA_LAST else Data)
      in Data')"

section \<open>The request object (class CHttpRequest)\<close>

text \<open>
  The class is declared in \<^verbatim>\<open>engine/shared/http.h\<close>; the record below has the members
  that \<^verbatim>\<open>http.cpp\<close> reads or writes in the functions modelled here. The request states
  are the enumerators the code names (\<^verbatim>\<open>HTTP_ERROR\<close>, \<^verbatim>\<open>HTTP_QUEUED\<close>, \<^verbatim>\<open>HTTP_RUNNING\<close>,
  \<^verbatim>\<open>HTTP_DONE\<close>, \<^verbatim>\<open>HTTP_ABORTED\<close>); only their being distinct is used.

  A pointer that may be null is an \<open>option\<close> (\<open>None\<close> is \<^verbatim>\<open>nullptr\<close>). A heap block is
  the list of its cells, a cell that was never written being \<open>None\<close>. The header list
  \<^verbatim>\<open>m_pHeaders\<close> (a \<^verbatim>\<open>curl_slist\<close>) is the list of its lines, the null list being \<open>[]\<close>.
  Debug output (\<^verbatim>\<open>dbg_msg\<close>) and the progress members, which are floating-point
  values, are left out: no function below branches on them.
\<close>

type_synonym byte = "8 word"
type_synonym block = "byte option list"
type_synonym IOHANDLE = nat
type_synonym CURL = nat

datatype HTTP_STATE = HTTP_ERROR | HTTP_QUEUED | HTTP_RUNNING | HTTP_DONE | HTTP_ABORTED

datatype REQUEST = GET | HEAD | POST | POST_JSON

datatype IPRESOLVE = WHATEVER | V4 | V6

record CTimeout =
  ConnectTimeoutMs :: int
  LowSpeedLimit :: int
  LowSpeedTime :: int

record CHttpRequest =
  m_aUrl :: string
  m_pHeaders :: "string list"
  m_pBody :: "byte list option"
  m_BodyLength :: nat
  m_Timeout :: CTimeout
  m_Type :: REQUEST
  m_WriteToFile :: bool
  m_BufferSize :: nat
  m_BufferLength :: nat
  m_pBuffer :: "block option"
  m_File :: "IOHANDLE option"
  m_aDestAbsolute :: string
  m_aDest :: string
  m_IpResolve :: IPRESOLVE
  m_State :: HTTP_STATE

section \<open>The world outside the request\<close>

text \<open>
  The file system, libcurl and the configuration are not part of the program. Every
  call the request makes to them is appended to a log of events, in program order, and
  what they answer is read from an \<open>environment\<close>, over which every theorem quantifies.
  Stores to the atomic member \<^verbatim>\<open>m_State\<close> are logged too, since other threads observe
  them.
\<close>

datatype curl_ipresolve = CURL_IPRESOLVE_WHATEVER | CURL_IPRESOLVE_V4 | CURL_IPRESOLVE_V6

datatype curlopt =
    CURLOPT_VERBOSE int
  | CURLOPT_ERRORBUFFER
  | CURLOPT_CONNECTTIMEOUT_MS int
  | CURLOPT_LOW_SPEED_LIMIT int
  | CURLOPT_LOW_SPEED_TIME int
  | CURLOPT_SHARE
  | CURLOPT_PROTOCOLS int
  | CURLOPT_FOLLOWLOCATION int
  | CURLOPT_MAXREDIRS int
  | CURLOPT_FAILONERROR int
  | CURLOPT_URL string
  | CURLOPT_NOSIGNAL int
  | CURLOPT_USERAGENT string
  | CURLOPT_ACCEPT_ENCODING string
  | CURLOPT_WRITEDATA
  | CURLOPT_WRITEFUNCTION
  | CURLOPT_NOPROGRESS int
  | CURLOPT_PROGRESSDATA
  | CURLOPT_PROGRESSFUNCTION
  | CURLOPT_IPRESOLVE curl_ipresolve
  | CURLOPT_FORBID_REUSE int
  | CURLOPT_CAINFO string
  | CURLOPT_NOBODY int
  | CURLOPT_POSTFIELDS "byte list option"
  | CURLOPT_POSTFIELDSIZE nat
  | CURLOPT_HTTPHEADER "string list"

datatype event =
    FS_MAKEDIR_REC_FOR string
  | IO_OPEN string
  | IO_WRITE "IOHANDLE option" "byte list"
  | IO_CLOSE IOHANDLE
  | FS_REMOVE string
  | CURL_EASY_INIT
  | CURL_EASY_SETOPT curlopt
  | CURL_EASY_PERFORM
  | CURL_EASY_CLEANUP "CURL option"
  | M_STATE_STORE HTTP_STATE

text \<open>
  The answers of the outside world: the results of \<^verbatim>\<open>fs_makedir_rec_for\<close>, \<^verbatim>\<open>io_open\<close>,
  \<^verbatim>\<open>io_close\<close> and \<^verbatim>\<open>curl_easy_init\<close>; the byte count \<^verbatim>\<open>io_write\<close> reports, which may
  depend on everything that happened before; the chunks libcurl hands to the write
  callback during \<^verbatim>\<open>curl_easy_perform\<close> and the \<^verbatim>\<open>CURLcode\<close> it returns; the
  configuration variable \<^verbatim>\<open>g_Config.m_DbgCurl\<close>, the libcurl version number, whether the
  build targets Android, and the user agent string the build's macros spell.
\<close>

record environment =
  fs_makedir_rec_for_ret :: int
  io_open_ret :: "IOHANDLE option"
  io_write_ret :: "event list \<Rightarrow> nat"
  io_close_ret :: int
  curl_easy_init_ret :: "CURL option"
  transfer :: "byte list list"
  curl_easy_perform_ret :: int
  g_Config_m_DbgCurl :: int
  version_num :: nat
  CONF_PLATFORM_ANDROID :: bool
  USERAGENT :: string

text \<open>libcurl's constants, with the values of \<^verbatim>\<open>curl/curl.h\<close>.\<close>

definition CURLE_OK :: int where
  "CURLE_OK = 0"

definition CURLE_ABORTED_BY_CALLBACK :: int where
  "CURLE_ABORTED_BY_CALLBACK = 42"

definition CURLPROTO_HTTP :: int where
  "CURLPROTO_HTTP = 1"

definition CURLPROTO_HTTPS :: int where
  "CURLPROTO_HTTPS = 2"

definition curl_easy_setopt :: "curlopt \<Rightarrow> event list \<Rightarrow> event list" where
  "curl_easy_setopt opt w = w @ [CURL_EASY_SETOPT opt]"

text \<open>\<^verbatim>\<open>curl_slist_append\<close> adds the line at the end of the list.\<close>

definition curl_slist_append :: "string list \<Rightarrow> string \<Rightarrow> string list" where
  "curl_slist_append l s = l @ [s]"

section \<open>Memory: size_t, realloc and mem_copy\<close>

text \<open>
  \<^verbatim>\<open>size_t\<close> is taken to be 64 bits wide: sizes are natural numbers and every sum and
  product of the source is reduced modulo \<open>2 ^ 64\<close>.

  \<^verbatim>\<open>realloc\<close> is assumed to succeed (the source does not test its result): it keeps the
  cells that fit and adds unwritten ones. \<^verbatim>\<open>mem_copy\<close> at an offset into a block has a
  defined result only when the pointer is not null and the bytes fit into the block;
  otherwise it yields \<open>None\<close>.
\<close>

definition SIZE_T_MOD :: nat where
  "SIZE_T_MOD = 2 ^ 64"

definition realloc :: "block option \<Rightarrow> nat \<Rightarrow> block option" where
  "realloc p n =
     (case p of
        None \<Rightarrow> Some (replicate n None)
      | Some b \<Rightarrow> Some (take n b @ replicate (n - length b) None))"

definition mem_copy :: "block option \<Rightarrow> nat \<Rightarrow> byte list \<Rightarrow> block option option" where
  "mem_copy p off pData =
     (case p of
        None \<Rightarrow> None
      | Some b \<Rightarrow>
          if off + length pData \<le> length b
          then Some (Some (take off b @ map Some pData @ drop (off + length pData) b))
          else None)"

section \<open>CHttpRequest::BeforeInit (lines 131--149)\<close>

definition BeforeInit ::
  "environment \<Rightarrow> CHttpRequest \<Rightarrow> event list \<Rightarrow> bool \<times> CHttpRequest \<times> event list" where
  "BeforeInit env t w =
     (if m_WriteToFile t then
        (let w1 = w @ [FS_MAKEDIR_REC_FOR (m_aDestAbsolute t)] in
         if fs_makedir_rec_for_ret env < 0 then (False, t, w1)
         else
           (let t1 = t\<lparr>m_File := io_open_ret env\<rparr>;
                w2 = w1 @ [IO_OPEN (m_aDestAbsolute t)]
            in if m_File t1 = None then (False, t1, w2) else (True, t1, w2)))
      else (True, t, w))"

section \<open>CHttpRequest::Header (lines 311--314)\<close>

definition Header :: "string \<Rightarrow> CHttpRequest \<Rightarrow> CHttpRequest" where
  "Header pNameColonValue t =
     t\<lparr>m_pHeaders := curl_slist_append (m_pHeaders t) pNameColonValue\<rparr>"

section \<open>CHttpRequest::OnData and WriteCallback (lines 236--267)\<close>

text \<open>
  The loop \<^verbatim>\<open>while(m_BufferLength + DataSize > NewBufferSize) NewBufferSize *= 2;\<close>
  need not end (it spins once \<^verbatim>\<open>NewBufferSize\<close> has wrapped to 0), so it is a partial
  function: \<open>None\<close> means that the loop never exits.
\<close>

partial_function (option) OnData_while :: "nat \<Rightarrow> nat \<Rightarrow> nat \<Rightarrow> nat option" where
  "OnData_while BufferLength DataSize NewBufferSize =
     (if (BufferLength + DataSize) mod SIZE_T_MOD > NewBufferSize
      then OnData_while BufferLength DataSize ((NewBufferSize * 2) mod SIZE_T_MOD)
      else Some NewBufferSize)"

declare OnData_while.simps [code]

text \<open>
  \<^verbatim>\<open>pData\<close> and \<^verbatim>\<open>DataSize\<close> are one argument: the bytes the pointer addresses, whose
  number is \<^verbatim>\<open>DataSize\<close> (in \<^verbatim>\<open>WriteCallback\<close>, the product \<^verbatim>\<open>Size * Number\<close>). The
  result is the value returned, the request and the log; \<open>None\<close> means that the call
  does not return a value (the loop never exits, or \<^verbatim>\<open>mem_copy\<close> has no defined
  result).
\<close>

definition OnData ::
  "environment \<Rightarrow> byte list \<Rightarrow> CHttpRequest \<Rightarrow> event list \<Rightarrow>
     (nat \<times> CHttpRequest \<times> event list) option" where
  "OnData env pData t w =
     (let DataSize = length pData in
      if \<not> m_WriteToFile t then
        if DataSize = 0 then Some (DataSize, t, w)
        else
          (case OnData_while (m_BufferLength t) DataSize (max 1024 (m_BufferSize t)) of
             None \<Rightarrow> None
           | Some NewBufferSize \<Rightarrow>
               (let t1 = (if NewBufferSize \<noteq> m_BufferSize t
                          then t\<lparr>m_pBuffer := realloc (m_pBuffer t) NewBufferSize,
                                 m_BufferSize := NewBufferSize\<rparr>
                          else t)
                in case mem_copy (m_pBuffer t1) (m_BufferLength t1) pData of
                     None \<Rightarrow> None
                   | Some p \<Rightarrow>
                       Some (DataSize,
                             t1\<lparr>m_pBuffer := p,
                                m_BufferLength := (m_BufferLength t1 + DataSize) mod SIZE_T_MOD\<rparr>,
                             w)))
      else
        (let w1 = w @ [IO_WRITE (m_File t) pData]
         in Some (io_write_ret env w1, t, w1)))"

definition WriteCallback ::
  "environment \<Rightarrow> byte list \<Rightarrow> CHttpRequest \<Rightarrow> event list \<Rightarrow>
     (nat \<times> CHttpRequest \<times> event list) option" where
  "WriteCallback env pData pUser w = OnData env pData pUser w"

section \<open>CHttpRequest::OnCompletion (lines 279--295)\<close>

definition OnCompletion ::
  "environment \<Rightarrow> HTTP_STATE \<Rightarrow> CHttpRequest \<Rightarrow> event list \<Rightarrow> HTTP_STATE \<times> event list" where
  "OnCompletion env State t w =
     (if m_WriteToFile t then
        (let (State1, w1) =
               (case m_File t of
                  None \<Rightarrow> (State, w)
                | Some f \<Rightarrow>
                    (if io_close_ret env \<noteq> 0 then (HTTP_ERROR, w @ [IO_CLOSE f])
                     else (State, w @ [IO_CLOSE f])))
         in if State1 = HTTP_ERROR \<or> State1 = HTTP_ABORTED
            then (State1, w1 @ [FS_REMOVE (m_aDestAbsolute t)])
            else (State1, w1))
      else (State, w))"

section \<open>CHttpRequest::RunImpl (lines 151--234)\<close>

text \<open>Lines 159--196: the options that do not depend on the request method.\<close>

definition RunImpl_options :: "environment \<Rightarrow> CHttpRequest \<Rightarrow> event list \<Rightarrow> event list" where
  "RunImpl_options env t w =
     (let w = (if g_Config_m_DbgCurl env \<noteq> 0 then curl_easy_setopt (CURLOPT_VERBOSE 1) w else w);
          w = curl_easy_setopt CURLOPT_ERRORBUFFER w;
          w = curl_easy_setopt (CURLOPT_CONNECTTIMEOUT_MS (ConnectTimeoutMs (m_Timeout t))) w;
          w = curl_easy_setopt (CURLOPT_LOW_SPEED_LIMIT (LowSpeedLimit (m_Timeout t))) w;
          w = curl_easy_setopt (CURLOPT_LOW_SPEED_TIME (LowSpeedTime (m_Timeout t))) w;
          w = curl_easy_setopt CURLOPT_SHARE w;
          w = curl_easy_setopt (CURLOPT_PROTOCOLS (CURLPROTO_HTTP OR CURLPROTO_HTTPS)) w;
          w = curl_easy_setopt (CURLOPT_FOLLOWLOCATION 1) w;
          w = curl_easy_setopt (CURLOPT_MAXREDIRS 4) w;
          w = curl_easy_setopt (CURLOPT_FAILONERROR 1) w;
          w = curl_easy_setopt (CURLOPT_URL (m_aUrl t)) w;
          w = curl_easy_setopt (CURLOPT_NOSIGNAL 1) w;
          w = curl_easy_setopt (CURLOPT_USERAGENT (USERAGENT env)) w;
          w = curl_easy_setopt (CURLOPT_ACCEPT_ENCODING []) w;
          w = curl_easy_setopt CURLOPT_WRITEDATA w;
          w = curl_easy_setopt CURLOPT_WRITEFUNCTION w;
          w = curl_easy_setopt (CURLOPT_NOPROGRESS 0) w;
          w = curl_easy_setopt CURLOPT_PROGRESSDATA w;
          w = curl_easy_setopt CURLOPT_PROGRESSFUNCTION w;
          w = curl_easy_setopt
                (CURLOPT_IPRESOLVE
                   (if m_IpResolve t = V4 then CURL_IPRESOLVE_V4
                    else if m_IpResolve t = V6 then CURL_IPRESOLVE_V6
                    else CURL_IPRESOLVE_WHATEVER)) w;
          w = (if version_num env < 0x074400 then curl_easy_setopt (CURLOPT_FORBID_REUSE 1) w else w);
          w = (if CONF_PLATFORM_ANDROID env
               then curl_easy_setopt (CURLOPT_CAINFO ''data/cacert.pem'') w else w)
      in w)"

text \<open>Lines 198--214: the switch on the request method.\<close>

definition RunImpl_method :: "CHttpRequest \<Rightarrow> event list \<Rightarrow> CHttpRequest \<times> event list" where
  "RunImpl_method t w =
     (case m_Type t of
        GET \<Rightarrow> (t, w)
      | HEAD \<Rightarrow> (t, curl_easy_setopt (CURLOPT_NOBODY 1) w)
      | _ \<Rightarrow>
          (let t1 = (if m_Type t = POST_JSON
                     then Header ''Content-Type: application/json'' t else t);
               w1 = curl_easy_setopt (CURLOPT_POSTFIELDS (m_pBody t1)) w;
               w2 = curl_easy_setopt (CURLOPT_POSTFIELDSIZE (m_BodyLength t1)) w1
           in (t1, w2)))"

text \<open>Lines 159--216: the whole set-up of the handle, up to \<^verbatim>\<open>CURLOPT_HTTPHEADER\<close>.\<close>

definition RunImpl_setup ::
  "environment \<Rightarrow> CHttpRequest \<Rightarrow> event list \<Rightarrow> CHttpRequest \<times> event list" where
  "RunImpl_setup env t w =
     (let (t1, w1) = RunImpl_method t (RunImpl_options env t w)
      in (t1, curl_easy_setopt (CURLOPT_HTTPHEADER (m_pHeaders t1)) w1))"

text \<open>
  \<^verbatim>\<open>curl_easy_perform\<close>: libcurl hands the chunks of the transfer to the write callback,
  in order and on the calling thread, and returns its code. Which chunks it delivers
  and which code it returns is libcurl's decision (it also depends on what the
  callbacks return); the model takes both from the environment, so the theorems hold
  for every such decision.
\<close>

fun deliver ::
  "environment \<Rightarrow> byte list list \<Rightarrow> CHttpRequest \<Rightarrow> event list \<Rightarrow>
     (CHttpRequest \<times> event list) option" where
  "deliver env [] t w = Some (t, w)"
| "deliver env (c # cs) t w =
     (case WriteCallback env c t w of
        None \<Rightarrow> None
      | Some (n, t1, w1) \<Rightarrow> deliver env cs t1 w1)"

definition curl_easy_perform ::
  "environment \<Rightarrow> CHttpRequest \<Rightarrow> event list \<Rightarrow> (int \<times> CHttpRequest \<times> event list) option" where
  "curl_easy_perform env t w =
     (case deliver env (transfer env) t (w @ [CURL_EASY_PERFORM]) of
        None \<Rightarrow> None
      | Some (t1, w1) \<Rightarrow> Some (curl_easy_perform_ret env, t1, w1))"

definition RunImpl ::
  "environment \<Rightarrow> CURL option \<Rightarrow> CHttpRequest \<Rightarrow> event list \<Rightarrow>
     (HTTP_STATE \<times> CHttpRequest \<times> event list) option" where
  "RunImpl env pUser t w =
     (case pUser of
        None \<Rightarrow> Some (HTTP_ERROR, t, w)
      | Some pHandle \<Rightarrow>
          (let (t1, w1) = RunImpl_setup env t w;
               t2 = t1\<lparr>m_State := HTTP_RUNNING\<rparr>;
               w2 = w1 @ [M_STATE_STORE HTTP_RUNNING]
           in case curl_easy_perform env t2 w2 of
                None \<Rightarrow> None
              | Some (Ret, t3, w3) \<Rightarrow>
                  if Ret \<noteq> CURLE_OK
                  then Some (if Ret = CURLE_ABORTED_BY_CALLBACK then HTTP_ABORTED else HTTP_ERROR,
                             t3, w3)
                  else Some (HTTP_DONE, t3, w3)))"

section \<open>CHttpRequest::Run (lines 114--129)\<close>

text \<open>
  \<open>Run_FinalState\<close> is lines 116--126: it computes the local variable \<^verbatim>\<open>FinalState\<close>.
  \<open>Run\<close> passes it to the completion hook and stores the hook's result in \<^verbatim>\<open>m_State\<close>.

  \<^verbatim>\<open>OnCompletion\<close> is a virtual member function, and line 128 calls it through the
  object: a subclass may override it (\<^verbatim>\<open>CSkins::CGetPngFile\<close> in
  \<^verbatim>\<open>game/client/components/skins.h\<close> does). The hook of the request's class is therefore a
  parameter of \<open>Run\<close>. An overriding hook is code of the subclass: given the state it may
  change the request, make calls of its own and answer any state, or not return
  (\<open>None\<close>). \<open>CHttpRequest_OnCompletion\<close> is the hook of the base class in that form.
\<close>

definition Run_FinalState ::
  "environment \<Rightarrow> CHttpRequest \<Rightarrow> event list \<Rightarrow>
     (HTTP_STATE \<times> CHttpRequest \<times> event list) option" where
  "Run_FinalState env t w =
     (case BeforeInit env t w of
        (ok, t1, w1) \<Rightarrow>
          if \<not> ok then Some (HTTP_ERROR, t1, w1)
          else
            (let pHandle = curl_easy_init_ret env;
                 w2 = w1 @ [CURL_EASY_INIT]
             in case RunImpl env pHandle t1 w2 of
                  None \<Rightarrow> None
                | Some (FinalState, t3, w3) \<Rightarrow>
                    Some (FinalState, t3, w3 @ [CURL_EASY_CLEANUP pHandle])))"

type_synonym completion_hook =
  "environment \<Rightarrow> HTTP_STATE \<Rightarrow> CHttpRequest \<Rightarrow> event list \<Rightarrow>
     (HTTP_STATE \<times> CHttpRequest \<times> event list) option"

definition CHttpRequest_OnCompletion :: completion_hook where
  "CHttpRequest_OnCompletion env State t w =
     (case OnCompletion env State t w of (State', w') \<Rightarrow> Some (State', t, w'))"

definition Run ::
  "completion_hook \<Rightarrow> environment \<Rightarrow> CHttpRequest \<Rightarrow> event list \<Rightarrow>
     (CHttpRequest \<times> event list) option" where
  "Run OnCompletion_v env t w =
     (case Run_FinalState env t w of
        None \<Rightarrow> None
      | Some (FinalState, t1, w1) \<Rightarrow>
          (case OnCompletion_v env FinalState t1 w1 of
             None \<Rightarrow> None
           | Some (State, t2, w2) \<Rightarrow> Some (t2\<lparr>m_State := State\<rparr>, w2 @ [M_STATE_STORE State])))"

section \<open>CHttpRequest::Result and ResultJson (lines 316--338)\<close>

text \<open>
  \<^verbatim>\<open>State()\<close> is the accessor of \<^verbatim>\<open>m_State\<close> declared in the header. \<^verbatim>\<open>json_parse\<close> is the
  external parser: it is a parameter, given the pointer's block and the length.
\<close>

definition State :: "CHttpRequest \<Rightarrow> HTTP_STATE" where
  "State t = m_State t"

definition Result :: "CHttpRequest \<Rightarrow> block option \<times> nat" where
  "Result t =
     (if m_WriteToFile t \<or> State t \<noteq> HTTP_DONE then (None, 0)
      else (m_pBuffer t, m_BufferLength t))"

definition ResultJson :: "(block \<Rightarrow> nat \<Rightarrow> 'j option) \<Rightarrow> CHttpRequest \<Rightarrow> 'j option" where
  "ResultJson json_parse t =
     (case Result t of
        (pResult, ResultLength) \<Rightarrow>
          (case pResult of
             None \<Rightarrow> None
           | Some b \<Rightarrow> json_parse b ResultLength))"

section \<open>The memory sink as an observer sees it\<close>

text \<open>
  \<open>buffer_contents\<close> is what a reader of \<^verbatim>\<open>m_pBuffer\<close> finds in its first
  \<^verbatim>\<open>m_BufferLength\<close> cells. \<open>buffer_inv\<close> is the invariant of the memory sink: no block
  and no bytes, or a block of \<^verbatim>\<open>m_BufferSize\<close> cells, that size being 1024 doubled some
  number of times and at most \<open>2 ^ 63\<close>, holding at least \<^verbatim>\<open>m_BufferLength\<close> bytes.
\<close>

definition buffer_contents :: "CHttpRequest \<Rightarrow> block" where
  "buffer_contents t = (case m_pBuffer t of None \<Rightarrow> [] | Some b \<Rightarrow> take (m_BufferLength t) b)"

definition buffer_inv :: "CHttpRequest \<Rightarrow> bool" where
  "buffer_inv t =
     (case m_pBuffer t of
        None \<Rightarrow> m_BufferSize t = 0 \<and> m_BufferLength t = 0
      | Some b \<Rightarrow> length b = m_BufferSize t \<and> m_BufferLength t \<le> m_BufferSize t \<and>
          m_BufferSize t \<le> 2 ^ 63 \<and> (\<exists>k. m_BufferSize t = 1024 * 2 ^ k))"

section \<open>A concrete request and environment\<close>

text \<open>
  A memory-sink request with nothing received yet, the same request writing to a file,
  and an environment in which every call succeeds and three chunks arrive. The
  theorems below are evaluated on them.
\<close>

definition example_request :: CHttpRequest where
  "example_request =
     \<lparr>m_aUrl = ''https://maps.example.org/a.map'', m_pHeaders = [], m_pBody = None,
      m_BodyLength = 0,
      m_Timeout = \<lparr>ConnectTimeoutMs = 10000, LowSpeedLimit = 500, LowSpeedTime = 5\<rparr>,
      m_Type = GET, m_WriteToFile = False, m_BufferSize = 0, m_BufferLength = 0,
      m_pBuffer = None, m_File = None, m_aDestAbsolute = [], m_aDest = [],
      m_IpResolve = WHATEVER, m_State = HTTP_QUEUED\<rparr>"

definition example_download :: CHttpRequest where
  "example_download =
     example_request\<lparr>m_WriteToFile := True, m_aDest := ''downloadedmaps/a.map'',
       m_aDestAbsolute := ''/home/u/.teeworlds/downloadedmaps/a.map''\<rparr>"

definition example_env :: environment where
  "example_env =
     \<lparr>fs_makedir_rec_for_ret = 0, io_open_ret = Some 3, io_write_ret = (\<lambda>w. 0),
      io_close_ret = 0, curl_easy_init_ret = Some 1, transfer = [[1, 2], [], [3]],
      curl_easy_perform_ret = 0, g_Config_m_DbgCurl = 0, version_num = 0x075500,
      CONF_PLATFORM_ANDROID = False, USERAGENT = ''DDNet 15.9 (linux; amd64)''\<rparr>"

text \<open>
  The hook of a subclass that calls the base hook first, as an overriding hook does,
  and then reports a failed request as aborted. It never answers \<^verbatim>\<open>HTTP_DONE\<close> for a
  request that did not succeed.
\<close>

definition example_override :: completion_hook where
  "example_override env S t w =
     (case OnCompletion env S t w of
        (S', w') \<Rightarrow> Some (if S' = HTTP_ERROR then HTTP_ABORTED else S', t, w'))"

section \<open>Auxiliary lemmas\<close>

text \<open>
  The doubling loop exits whenever the bytes to hold fit into \<open>2 ^ 63\<close> and the starting
  size is 1024 doubled some number of times: no product wraps before the size suffices.
\<close>

lemma OnData_while_terminates:
  assumes "len + n \<le> 2 ^ 63" and "new = 1024 * 2 ^ k" and "new \<le> 2 ^ 63"
  shows "\<exists>j. OnData_while len n new = Some (1024 * 2 ^ j) \<and> len + n \<le> 1024 * 2 ^ j \<and>
             1024 * 2 ^ j \<le> (2::nat) ^ 63 \<and> k \<le> j"
  using assms
proof (induction "53 - k" arbitrary: k new)
  case 0
  have k: "53 \<le> k" using 0 by simp
  have "(2::nat) ^ 53 \<le> 2 ^ k" by (rule power_increasing) (use k in simp_all)
  then have "(2::nat) ^ 63 \<le> new" using 0(3) by simp
  then have new: "new = 2 ^ 63" and le: "len + n \<le> new" using 0 by simp_all
  have m: "(len + n) mod SIZE_T_MOD = len + n"
    using 0(2) by (simp add: SIZE_T_MOD_def)
  have "OnData_while len n new = Some new"
    using le m by (subst OnData_while.simps) simp
  then show ?case using le 0 by (intro exI [of _ k]) simp
next
  case (Suc d)
  have m: "(len + n) mod SIZE_T_MOD = len + n"
    using Suc.prems(1) by (simp add: SIZE_T_MOD_def)
  show ?case
  proof (cases "len + n \<le> new")
    case True
    have "OnData_while len n new = Some new"
      using True m by (subst OnData_while.simps) simp
    then show ?thesis using True Suc.prems by (intro exI [of _ k]) simp
  next
    case False
    have k: "k < 53" using Suc.hyps(2) by simp
    have "(2::nat) ^ Suc k \<le> 2 ^ 53" by (rule power_increasing) (use k in simp_all)
    then have dbl: "new * 2 \<le> 2 ^ 63" using Suc.prems(2) by simp
    then have m2: "(new * 2) mod SIZE_T_MOD = new * 2" by (simp add: SIZE_T_MOD_def)
    have step: "OnData_while len n new = OnData_while len n (new * 2)"
      using False m m2 by (subst OnData_while.simps) simp
    have "\<exists>j. OnData_while len n (new * 2) = Some (1024 * 2 ^ j) \<and> len + n \<le> 1024 * 2 ^ j \<and>
             1024 * 2 ^ j \<le> (2::nat) ^ 63 \<and> Suc k \<le> j"
      using Suc.hyps(2) Suc.prems(1,2) dbl by (intro Suc.hyps(1)) simp_all
    then show ?thesis using step by auto
  qed
qed

text \<open>
  The bound is sharp: once the size has wrapped to 0 the loop cannot exit, and a single
  byte more than \<open>2 ^ 63\<close> makes it wrap. (No such amount of data fits into the
  address space of a 64-bit machine.)
\<close>

lemma OnData_while_Some_positive:
  assumes "OnData_while len n new = Some y" and "0 < (len + n) mod SIZE_T_MOD"
  shows "0 < new"
proof -
  have "0 < (len + n) mod SIZE_T_MOD \<longrightarrow> 0 < new"
  proof (rule OnData_while.raw_induct
      [where P = "\<lambda>l d s y. 0 < (l + d) mod SIZE_T_MOD \<longrightarrow> 0 < s", OF _ assms(1)])
    fix f :: "nat \<Rightarrow> nat \<Rightarrow> nat \<Rightarrow> nat option" and l d s y
    assume ih: "\<And>l d s y. f l d s = Some y \<Longrightarrow> 0 < (l + d) mod SIZE_T_MOD \<longrightarrow> 0 < s"
      and st: "(if s < (l + d) mod SIZE_T_MOD then f l d (s * 2 mod SIZE_T_MOD) else Some s) = Some y"
    show "0 < (l + d) mod SIZE_T_MOD \<longrightarrow> 0 < s"
    proof (cases "s = 0")
      case True
      show ?thesis
      proof
        assume pos: "0 < (l + d) mod SIZE_T_MOD"
        then have "f l d 0 = Some y" using st True by simp
        then show "0 < s" using ih pos by blast
      qed
    next
      case False
      then show ?thesis by simp
    qed
  qed
  then show ?thesis using assms(2) by simp
qed

lemma OnData_while_zero:
  "0 < (len + n) mod SIZE_T_MOD \<Longrightarrow> OnData_while len n 0 = None"
  using OnData_while_Some_positive [of len n 0] by (cases "OnData_while len n 0") auto

lemma OnData_while_diverges: "OnData_while 0 (2 ^ 63 + 1) 1024 = None"
proof -
  have "OnData_while 0 (2 ^ 63 + 1) 1024 = OnData_while 0 (2 ^ 63 + 1) 0"
    by (simp add: OnData_while.simps [of _ _ "numeral k" for k] SIZE_T_MOD_def)
  also have "\<dots> = None" by (rule OnData_while_zero) (simp add: SIZE_T_MOD_def)
  finally show ?thesis .
qed

lemma OnData_empty:
  "\<not> m_WriteToFile t \<Longrightarrow> OnData env [] t w = Some (0, t, w)"
  by (simp add: OnData_def)

lemma OnData_memory:
  assumes mem: "\<not> m_WriteToFile t" and inv: "buffer_inv t"
    and ne: "d \<noteq> []" and fit: "m_BufferLength t + length d \<le> 2 ^ 63"
  shows "\<exists>t'. OnData env d t w = Some (length d, t', w) \<and> \<not> m_WriteToFile t' \<and> buffer_inv t' \<and>
           m_pBuffer t' \<noteq> None \<and>
           buffer_contents t' = buffer_contents t @ map Some d \<and>
           m_BufferLength t' = m_BufferLength t + length d"
proof -
  obtain k where start: "max 1024 (m_BufferSize t) = 1024 * 2 ^ k"
    and start_le: "max 1024 (m_BufferSize t) \<le> 2 ^ 63"
  proof (cases "m_pBuffer t")
    case None
    then have "max 1024 (m_BufferSize t) = 1024 * 2 ^ 0" using inv by (simp add: buffer_inv_def)
    moreover have "max 1024 (m_BufferSize t) \<le> 2 ^ 63" using inv None by (simp add: buffer_inv_def)
    ultimately show ?thesis using that by blast
  next
    case (Some b)
    then obtain k where k: "m_BufferSize t = 1024 * 2 ^ k" and le: "m_BufferSize t \<le> 2 ^ 63"
      using inv by (auto simp: buffer_inv_def)
    have "(1024::nat) \<le> 1024 * 2 ^ k" by simp
    then have "max 1024 (m_BufferSize t) = 1024 * 2 ^ k" using k by simp
    moreover have "max 1024 (m_BufferSize t) \<le> 2 ^ 63" using le by simp
    ultimately show ?thesis using that by blast
  qed
  obtain j where loop: "OnData_while (m_BufferLength t) (length d) (max 1024 (m_BufferSize t)) =
        Some (1024 * 2 ^ j)"
    and need: "m_BufferLength t + length d \<le> 1024 * 2 ^ j"
    and top: "1024 * 2 ^ j \<le> (2::nat) ^ 63" and kj: "k \<le> j"
    using OnData_while_terminates [OF fit start start_le] by blast
  define N where "N = (1024::nat) * 2 ^ j"
  have size_le: "m_BufferSize t \<le> N"
  proof -
    have "(2::nat) ^ k \<le> 2 ^ j" by (rule power_increasing) (use kj in simp_all)
    then have "max 1024 (m_BufferSize t) \<le> N" using start by (simp add: N_def)
    then show ?thesis by simp
  qed
  define t1 where "t1 = (if N \<noteq> m_BufferSize t
      then t\<lparr>m_pBuffer := realloc (m_pBuffer t) N, m_BufferSize := N\<rparr> else t)"
  have N_pos: "0 < N" by (simp add: N_def)
  obtain b1 where b1: "m_pBuffer t1 = Some b1" and len_b1: "length b1 = N"
    and pre: "take (m_BufferLength t) b1 = buffer_contents t"
  proof (cases "m_pBuffer t")
    case None
    then have z: "m_BufferSize t = 0" "m_BufferLength t = 0" using inv by (simp_all add: buffer_inv_def)
    then have "m_pBuffer t1 = Some (replicate N None)"
      using N_pos None by (simp add: t1_def realloc_def)
    moreover have "take (m_BufferLength t) (replicate N (None :: byte option)) = buffer_contents t"
      using z None by (simp add: buffer_contents_def)
    ultimately show ?thesis using that by simp
  next
    case (Some b)
    then have lb: "length b = m_BufferSize t" and ll: "m_BufferLength t \<le> m_BufferSize t"
      using inv by (simp_all add: buffer_inv_def)
    have "m_pBuffer t1 = Some (take N b @ replicate (N - length b) None)"
      using Some lb size_le by (simp add: t1_def realloc_def)
    moreover have "length (take N b @ replicate (N - length b) None) = N"
      using lb size_le by simp
    moreover have "take (m_BufferLength t) (take N b @ replicate (N - length b) None) = buffer_contents t"
      using Some lb ll size_le by (simp add: buffer_contents_def)
    ultimately show ?thesis using that by blast
  qed
  have t1_fields: "m_BufferLength t1 = m_BufferLength t" "m_BufferSize t1 = N"
    "m_WriteToFile t1 = m_WriteToFile t"
    by (simp_all add: t1_def)
  have need': "m_BufferLength t + length d \<le> N" using need by (simp add: N_def)
  define p where "p = take (m_BufferLength t) b1 @ map Some d @ drop (m_BufferLength t + length d) b1"
  have copy: "mem_copy (m_pBuffer t1) (m_BufferLength t1) d = Some (Some p)"
    using b1 len_b1 need' t1_fields by (simp add: mem_copy_def p_def)
  have m: "(m_BufferLength t + length d) mod SIZE_T_MOD = m_BufferLength t + length d"
    using fit by (simp add: SIZE_T_MOD_def)
  define t' where "t' = t1\<lparr>m_pBuffer := Some p, m_BufferLength := m_BufferLength t + length d\<rparr>"
  have run: "OnData env d t w = Some (length d, t', w)"
    using mem ne loop copy m t1_fields
    by (simp add: OnData_def Let_def N_def [symmetric] t1_def [symmetric] t'_def)
  have len_p: "length p = N" using len_b1 need' by (simp add: p_def)
  have "buffer_inv t'"
    using len_p need' top t1_fields by (auto simp: buffer_inv_def t'_def N_def)
  moreover have "buffer_contents t' = buffer_contents t @ map Some d"
  proof -
    have "length (take (m_BufferLength t) b1) = m_BufferLength t" using len_b1 need' by simp
    then have "take (m_BufferLength t + length d) p = take (m_BufferLength t) b1 @ map Some d"
      by (simp add: p_def)
    then show ?thesis using pre by (simp add: buffer_contents_def t'_def)
  qed
  ultimately show ?thesis
    using run mem t1_fields by (intro exI [of _ t']) (simp add: t'_def)
qed

lemma deliver_memory:
  assumes "\<not> m_WriteToFile t" and "buffer_inv t"
    and "m_BufferLength t + sum_list (map length cs) \<le> 2 ^ 63"
  shows "\<exists>t'. deliver env cs t w = Some (t', w) \<and> \<not> m_WriteToFile t' \<and> buffer_inv t' \<and>
           buffer_contents t' = buffer_contents t @ map Some (concat cs) \<and>
           m_BufferLength t' = m_BufferLength t + sum_list (map length cs) \<and>
           ((\<forall>c \<in> set cs. c = []) \<longrightarrow> t' = t) \<and>
           ((\<exists>c \<in> set cs. c \<noteq> []) \<longrightarrow> m_pBuffer t' \<noteq> None)"
  using assms
proof (induction cs arbitrary: t)
  case Nil
  then show ?case by simp
next
  case (Cons c cs)
  show ?case
  proof (cases "c = []")
    case True
    have step: "deliver env (c # cs) t w = deliver env cs t w"
      using True Cons.prems(1) by (simp add: WriteCallback_def OnData_empty)
    obtain t' where "deliver env cs t w = Some (t', w)" "\<not> m_WriteToFile t'" "buffer_inv t'"
        "buffer_contents t' = buffer_contents t @ map Some (concat cs)"
        "m_BufferLength t' = m_BufferLength t + sum_list (map length cs)"
        "(\<forall>c \<in> set cs. c = []) \<longrightarrow> t' = t" "(\<exists>c \<in> set cs. c \<noteq> []) \<longrightarrow> m_pBuffer t' \<noteq> None"
      using Cons.IH [of t] Cons.prems True by auto
    then show ?thesis using step True by (intro exI [of _ t']) simp
  next
    case False
    have fit: "m_BufferLength t + length c \<le> 2 ^ 63" using Cons.prems(3) by simp
    obtain t1 where one: "OnData env c t w = Some (length c, t1, w)" and m1: "\<not> m_WriteToFile t1"
      and i1: "buffer_inv t1" and nn: "m_pBuffer t1 \<noteq> None"
      and c1: "buffer_contents t1 = buffer_contents t @ map Some c"
      and l1: "m_BufferLength t1 = m_BufferLength t + length c"
      using OnData_memory [OF Cons.prems(1,2) False fit, of env w] by blast
    have step: "deliver env (c # cs) t w = deliver env cs t1 w"
      using one by (simp add: WriteCallback_def)
    have fit1: "m_BufferLength t1 + sum_list (map length cs) \<le> 2 ^ 63"
      using l1 Cons.prems(3) by simp
    obtain t' where r: "deliver env cs t1 w = Some (t', w)" "\<not> m_WriteToFile t'" "buffer_inv t'"
        "buffer_contents t' = buffer_contents t1 @ map Some (concat cs)"
        "m_BufferLength t' = m_BufferLength t1 + sum_list (map length cs)"
        "(\<forall>c \<in> set cs. c = []) \<longrightarrow> t' = t1" "(\<exists>c \<in> set cs. c \<noteq> []) \<longrightarrow> m_pBuffer t' \<noteq> None"
      using Cons.IH [OF m1 i1 fit1] by auto
    have "m_pBuffer t' \<noteq> None" using r(6,7) nn by blast
    then show ?thesis using step r c1 l1 False by (intro exI [of _ t']) auto
  qed
qed

lemma deliver_file:
  "m_WriteToFile t \<Longrightarrow> \<exists>w'. deliver env cs t w = Some (t, w')"
  by (induction cs arbitrary: w) (simp_all add: WriteCallback_def OnData_def Let_def)

lemma deliver_all_empty:
  "\<not> m_WriteToFile t \<Longrightarrow> \<forall>c \<in> set cs. c = [] \<Longrightarrow> deliver env cs t w = Some (t, w)"
  by (induction cs) (simp_all add: WriteCallback_def OnData_empty)

lemma RunImpl_setup_sink:
  "m_WriteToFile (fst (RunImpl_setup env t w)) = m_WriteToFile t \<and>
   m_pBuffer (fst (RunImpl_setup env t w)) = m_pBuffer t \<and>
   m_BufferSize (fst (RunImpl_setup env t w)) = m_BufferSize t \<and>
   m_BufferLength (fst (RunImpl_setup env t w)) = m_BufferLength t \<and>
   m_State (fst (RunImpl_setup env t w)) = m_State t"
  by (simp add: RunImpl_setup_def RunImpl_method_def Header_def Let_def split: REQUEST.split prod.split)

lemma BeforeInit_sink:
  "m_WriteToFile (fst (snd (BeforeInit env t w))) = m_WriteToFile t \<and>
   m_pBuffer (fst (snd (BeforeInit env t w))) = m_pBuffer t \<and>
   m_BufferSize (fst (snd (BeforeInit env t w))) = m_BufferSize t \<and>
   m_BufferLength (fst (snd (BeforeInit env t w))) = m_BufferLength t \<and>
   m_State (fst (snd (BeforeInit env t w))) = m_State t"
  by (simp add: BeforeInit_def Let_def)

lemma curl_easy_perform_returns:
  assumes "m_WriteToFile t \<or>
      (m_pBuffer t = None \<and> m_BufferSize t = 0 \<and> m_BufferLength t = 0 \<and>
       sum_list (map length (transfer env)) \<le> 2 ^ 63)"
  shows "\<exists>t' w'. curl_easy_perform env t w = Some (curl_easy_perform_ret env, t', w')"
proof (cases "m_WriteToFile t")
  case True
  then obtain w' where "deliver env (transfer env) t (w @ [CURL_EASY_PERFORM]) = Some (t, w')"
    using deliver_file by blast
  then show ?thesis by (simp add: curl_easy_perform_def)
next
  case False
  then have "buffer_inv t" and "m_BufferLength t + sum_list (map length (transfer env)) \<le> 2 ^ 63"
    using assms by (simp_all add: buffer_inv_def)
  then obtain t' where
    "deliver env (transfer env) t (w @ [CURL_EASY_PERFORM]) = Some (t', w @ [CURL_EASY_PERFORM])"
    using deliver_memory [OF False] by blast
  then show ?thesis by (simp add: curl_easy_perform_def)
qed

lemma RunImpl_options_log:
  "\<exists>es. RunImpl_options env t w = w @ es \<and>
     (\<forall>b. CURL_EASY_SETOPT (CURLOPT_POSTFIELDS b) \<notin> set es) \<and>
     (\<forall>n. CURL_EASY_SETOPT (CURLOPT_POSTFIELDSIZE n) \<notin> set es)"
  by (simp add: RunImpl_options_def curl_easy_setopt_def Let_def)

text \<open>
  The overriding hook of the example keeps to what a hook may do: it returns, and it
  answers \<^verbatim>\<open>HTTP_DONE\<close> only when it was given \<^verbatim>\<open>HTTP_DONE\<close>.
\<close>

lemma example_override_no_resurrection:
  "\<exists>s w'. example_override env S t w = Some (s, t, w') \<and> (s = HTTP_DONE \<longrightarrow> S = HTTP_DONE)"
  by (auto simp: example_override_def OnCompletion_def split: option.split)

section \<open>The transport outcome decides the state\<close>

text \<open>
  Claim C1. Take a request whose \<open>BeforeInit\<close> succeeds and for which \<^verbatim>\<open>curl_easy_init\<close>
  returns a handle. Then lines 116--126 of \<open>Run\<close> return, and the value of \<^verbatim>\<open>FinalState\<close>
  handed to the completion hook is \<^verbatim>\<open>HTTP_DONE\<close> exactly when \<^verbatim>\<open>curl_easy_perform\<close>
  returns \<^verbatim>\<open>CURLE_OK\<close>, \<^verbatim>\<open>HTTP_ABORTED\<close> exactly when it returns
  \<^verbatim>\<open>CURLE_ABORTED_BY_CALLBACK\<close>, and \<^verbatim>\<open>HTTP_ERROR\<close> exactly for every other code; so an
  abort never shares its state with another failure. The third premise is what makes
  the call return: the request writes to a file, or it starts with an empty memory
  buffer and the transfer carries at most \<open>2 ^ 63\<close> bytes.
\<close>

theorem Run_FinalState_by_transport:
  assumes preflight: "fst (BeforeInit env t w)"
    and handle: "curl_easy_init_ret env \<noteq> None"
    and returns: "m_WriteToFile t \<or>
      (m_pBuffer t = None \<and> m_BufferSize t = 0 \<and> m_BufferLength t = 0 \<and>
       sum_list (map length (transfer env)) \<le> 2 ^ 63)"
  shows "\<exists>s t' w'. Run_FinalState env t w = Some (s, t', w') \<and>
      (s = HTTP_DONE \<longleftrightarrow> curl_easy_perform_ret env = CURLE_OK) \<and>
      (s = HTTP_ABORTED \<longleftrightarrow> curl_easy_perform_ret env = CURLE_ABORTED_BY_CALLBACK) \<and>
      (s = HTTP_ERROR \<longleftrightarrow> curl_easy_perform_ret env \<noteq> CURLE_OK \<and>
         curl_easy_perform_ret env \<noteq> CURLE_ABORTED_BY_CALLBACK)"
proof -
  obtain t1 w1 where b: "BeforeInit env t w = (True, t1, w1)"
    using preflight by (cases "BeforeInit env t w") auto
  have s1: "m_WriteToFile t1 = m_WriteToFile t" "m_pBuffer t1 = m_pBuffer t"
    "m_BufferSize t1 = m_BufferSize t" "m_BufferLength t1 = m_BufferLength t"
    using BeforeInit_sink [of env t w] b by simp_all
  obtain pHandle where h: "curl_easy_init_ret env = Some pHandle" using handle by auto
  obtain t2 w2 where su: "RunImpl_setup env t1 (w1 @ [CURL_EASY_INIT]) = (t2, w2)"
    by (cases "RunImpl_setup env t1 (w1 @ [CURL_EASY_INIT])") auto
  have s2: "m_WriteToFile t2 = m_WriteToFile t" "m_pBuffer t2 = m_pBuffer t"
    "m_BufferSize t2 = m_BufferSize t" "m_BufferLength t2 = m_BufferLength t"
    using RunImpl_setup_sink [of env t1 "w1 @ [CURL_EASY_INIT]"] su s1 by simp_all
  have "m_WriteToFile (t2\<lparr>m_State := HTTP_RUNNING\<rparr>) \<or>
      (m_pBuffer (t2\<lparr>m_State := HTTP_RUNNING\<rparr>) = None \<and>
       m_BufferSize (t2\<lparr>m_State := HTTP_RUNNING\<rparr>) = 0 \<and>
       m_BufferLength (t2\<lparr>m_State := HTTP_RUNNING\<rparr>) = 0 \<and>
       sum_list (map length (transfer env)) \<le> 2 ^ 63)"
    using returns s2 by simp
  then obtain t3 w3 where p: "curl_easy_perform env (t2\<lparr>m_State := HTTP_RUNNING\<rparr>)
      (w2 @ [M_STATE_STORE HTTP_RUNNING]) = Some (curl_easy_perform_ret env, t3, w3)"
    using curl_easy_perform_returns by blast
  show ?thesis
    using b h su p
    by (simp add: Run_FinalState_def RunImpl_def Let_def CURLE_OK_def
        CURLE_ABORTED_BY_CALLBACK_def)
qed

theorem Run_FinalState_by_transport_witness:
  "\<exists>t' w'. Run_FinalState (example_env\<lparr>curl_easy_perform_ret := 42\<rparr>) example_request [] =
      Some (HTTP_ABORTED, t', w')"
  using Run_FinalState_by_transport [of "example_env\<lparr>curl_easy_perform_ret := 42\<rparr>" example_request "[]"]
  by (simp add: example_env_def example_request_def BeforeInit_def CURLE_OK_def
      CURLE_ABORTED_BY_CALLBACK_def)

section \<open>The completion hook\<close>

text \<open>
  Claim C2. Given any state, \<open>OnCompletion\<close> returns \<^verbatim>\<open>HTTP_ERROR\<close> when the request
  writes to a file, the file is open and \<^verbatim>\<open>io_close\<close> fails, and the state it was given
  otherwise. So it turns \<^verbatim>\<open>HTTP_DONE\<close> into \<^verbatim>\<open>HTTP_ERROR\<close> exactly when closing the file
  fails, it returns \<^verbatim>\<open>HTTP_DONE\<close> only if it was given \<^verbatim>\<open>HTTP_DONE\<close>, and given
  \<^verbatim>\<open>HTTP_ERROR\<close> or \<^verbatim>\<open>HTTP_ABORTED\<close> it returns \<^verbatim>\<open>HTTP_ERROR\<close> or \<^verbatim>\<open>HTTP_ABORTED\<close>. For a
  file sink the calls it makes are: \<^verbatim>\<open>io_close\<close> if the file is open, and then
  \<^verbatim>\<open>fs_remove\<close> of \<^verbatim>\<open>m_aDestAbsolute\<close> exactly when the state after the close step is
  \<^verbatim>\<open>HTTP_ERROR\<close> or \<^verbatim>\<open>HTTP_ABORTED\<close>; in particular \<^verbatim>\<open>fs_remove\<close> is called whenever the
  hook is given \<^verbatim>\<open>HTTP_ERROR\<close> or \<^verbatim>\<open>HTTP_ABORTED\<close>, and whenever the close fails. For a memory
  sink it makes no call and returns the state unchanged. (Deleting the file is the call
  \<^verbatim>\<open>fs_remove\<close>; its result is not looked at.)
\<close>

theorem OnCompletion_downgrade_and_cleanup:
  "fst (OnCompletion env S t w) =
     (if m_WriteToFile t \<and> m_File t \<noteq> None \<and> io_close_ret env \<noteq> 0 then HTTP_ERROR else S) \<and>
   (fst (OnCompletion env S t w) = HTTP_DONE \<longrightarrow> S = HTTP_DONE) \<and>
   (m_WriteToFile t \<longrightarrow>
      snd (OnCompletion env S t w) =
        w @ (case m_File t of None \<Rightarrow> [] | Some f \<Rightarrow> [IO_CLOSE f]) @
        (if fst (OnCompletion env S t w) = HTTP_ERROR \<or> fst (OnCompletion env S t w) = HTTP_ABORTED
         then [FS_REMOVE (m_aDestAbsolute t)] else [])) \<and>
   (m_WriteToFile t \<and>
      (S = HTTP_ERROR \<or> S = HTTP_ABORTED \<or> (m_File t \<noteq> None \<and> io_close_ret env \<noteq> 0)) \<longrightarrow>
      (fst (OnCompletion env S t w) = HTTP_ERROR \<or> fst (OnCompletion env S t w) = HTTP_ABORTED) \<and>
      snd (OnCompletion env S t w) =
        w @ (case m_File t of None \<Rightarrow> [] | Some f \<Rightarrow> [IO_CLOSE f]) @
        [FS_REMOVE (m_aDestAbsolute t)]) \<and>
   (\<not> m_WriteToFile t \<longrightarrow> OnCompletion env S t w = (S, w))"
  by (auto simp: OnCompletion_def split: option.split)

theorem OnCompletion_downgrade_and_cleanup_witness:
  "OnCompletion (example_env\<lparr>io_close_ret := - 1\<rparr>) HTTP_DONE (example_download\<lparr>m_File := Some 3\<rparr>) [] =
     (HTTP_ERROR, [IO_CLOSE 3, FS_REMOVE ''/home/u/.teeworlds/downloadedmaps/a.map'']) \<and>
   OnCompletion example_env HTTP_ABORTED (example_download\<lparr>m_File := Some 3\<rparr>) [] =
     (HTTP_ABORTED, [IO_CLOSE 3, FS_REMOVE ''/home/u/.teeworlds/downloadedmaps/a.map'']) \<and>
   OnCompletion example_env HTTP_ERROR example_download [] =
     (HTTP_ERROR, [FS_REMOVE ''/home/u/.teeworlds/downloadedmaps/a.map'']) \<and>
   OnCompletion example_env HTTP_DONE (example_download\<lparr>m_File := Some 3\<rparr>) [] =
     (HTTP_DONE, [IO_CLOSE 3])"
  using OnCompletion_downgrade_and_cleanup
    [of "example_env\<lparr>io_close_ret := - 1\<rparr>" HTTP_DONE "example_download\<lparr>m_File := Some 3\<rparr>" "[]"]
    OnCompletion_downgrade_and_cleanup
    [of example_env HTTP_ABORTED "example_download\<lparr>m_File := Some 3\<rparr>" "[]"]
    OnCompletion_downgrade_and_cleanup [of example_env HTTP_ERROR example_download "[]"]
    OnCompletion_downgrade_and_cleanup
    [of example_env HTTP_DONE "example_download\<lparr>m_File := Some 3\<rparr>" "[]"]
  by (simp add: example_env_def example_download_def example_request_def prod_eq_iff)

section \<open>The memory sink\<close>

text \<open>
  Claim C3. Chunks (possibly empty) are handed in order to the write callback of a
  memory-sink request that starts with an empty buffer, and their sizes add up to at
  most \<open>2 ^ 63\<close> bytes. Then every call returns, the buffer holds the concatenation of
  the chunks in that order, \<^verbatim>\<open>m_BufferLength\<close> is the sum of their sizes, and
  \<^verbatim>\<open>m_BufferSize\<close> is 0 if no chunk had a byte, and otherwise 1024 doubled some number
  of times; in both cases it is at least \<^verbatim>\<open>m_BufferLength\<close>.
\<close>

theorem memory_sink_concatenates:
  assumes "\<not> m_WriteToFile t" and "m_pBuffer t = None" and "m_BufferSize t = 0"
    and "m_BufferLength t = 0" and "sum_list (map length chunks) \<le> 2 ^ 63"
  shows "\<exists>t'. deliver env chunks t w = Some (t', w) \<and>
      buffer_contents t' = map Some (concat chunks) \<and>
      m_BufferLength t' = sum_list (map length chunks) \<and>
      m_BufferLength t' \<le> m_BufferSize t' \<and>
      (if \<forall>c \<in> set chunks. c = [] then m_BufferSize t' = 0
       else \<exists>k. m_BufferSize t' = 1024 * 2 ^ k)"
proof -
  have inv: "buffer_inv t" using assms by (simp add: buffer_inv_def)
  have fit: "m_BufferLength t + sum_list (map length chunks) \<le> 2 ^ 63" using assms by simp
  obtain t' where r: "deliver env chunks t w = Some (t', w)" "buffer_inv t'"
      "buffer_contents t' = buffer_contents t @ map Some (concat chunks)"
      "m_BufferLength t' = m_BufferLength t + sum_list (map length chunks)"
      "(\<forall>c \<in> set chunks. c = []) \<longrightarrow> t' = t"
      "(\<exists>c \<in> set chunks. c \<noteq> []) \<longrightarrow> m_pBuffer t' \<noteq> None"
    using deliver_memory [OF assms(1) inv fit, of env w] by blast
  have c: "buffer_contents t = []" using assms by (simp add: buffer_contents_def)
  have le: "m_BufferLength t' \<le> m_BufferSize t'"
    using r(2) by (auto simp: buffer_inv_def split: option.splits)
  have cap: "if \<forall>c \<in> set chunks. c = [] then m_BufferSize t' = 0
       else \<exists>k. m_BufferSize t' = 1024 * 2 ^ k"
  proof (cases "\<forall>c \<in> set chunks. c = []")
    case True
    then show ?thesis using r(5) assms(3) by simp
  next
    case False
    then have "m_pBuffer t' \<noteq> None" using r(6) by blast
    then have "\<exists>k. m_BufferSize t' = 1024 * 2 ^ k"
      using r(2) by (auto simp: buffer_inv_def split: option.splits)
    then show ?thesis using False by auto
  qed
  show ?thesis using r(1,3,4) c le cap assms(4) by (intro exI [of _ t']) simp
qed

theorem memory_sink_concatenates_witness:
  "\<exists>t'. deliver example_env [[1, 2], [], [3]] example_request [] = Some (t', []) \<and>
      buffer_contents t' = [Some 1, Some 2, Some 3] \<and> m_BufferLength t' = 3 \<and>
      3 \<le> m_BufferSize t' \<and> (\<exists>k. m_BufferSize t' = 1024 * 2 ^ k)"
proof -
  have a: "\<not> m_WriteToFile example_request" "m_pBuffer example_request = None"
    "m_BufferSize example_request = 0" "m_BufferLength example_request = 0"
    by (simp_all add: example_request_def)
  have b: "sum_list (map length [[1, 2], [], [3 :: byte]]) \<le> 2 ^ 63" by simp
  obtain t' where r: "deliver example_env [[1, 2], [], [3]] example_request [] = Some (t', [])"
    and c: "buffer_contents t' = map Some (concat [[1, 2], [], [3]])"
    and l: "m_BufferLength t' = sum_list (map length [[1, 2], [], [3 :: byte]])"
    and le: "m_BufferLength t' \<le> m_BufferSize t'"
    and k: "if \<forall>c \<in> set [[1, 2], [], [3 :: byte]]. c = [] then m_BufferSize t' = 0
       else \<exists>k. m_BufferSize t' = 1024 * 2 ^ k"
    using memory_sink_concatenates [OF a b, of example_env "[]"] by blast
  have "\<exists>k. m_BufferSize t' = 1024 * 2 ^ k" using k by simp
  then show ?thesis using r c l le by (intro exI [of _ t']) (simp del: deliver.simps)
qed

section \<open>A failed pre-flight\<close>




section \<open>Result and ResultJson\<close>

text \<open>
  Claim C6. \<open>Result\<close> yields the null pointer and length 0, unless the request uses the
  memory sink and its state is \<^verbatim>\<open>HTTP_DONE\<close>, in which case it yields \<^verbatim>\<open>m_pBuffer\<close> and
  \<^verbatim>\<open>m_BufferLength\<close>. In particular a request still in \<^verbatim>\<open>HTTP_QUEUED\<close> has the empty
  result.
\<close>

theorem Result_empty_unless_memory_done:
  "Result t =
     (if \<not> m_WriteToFile t \<and> m_State t = HTTP_DONE then (m_pBuffer t, m_BufferLength t)
      else (None, 0)) \<and>
   (m_State t = HTTP_QUEUED \<longrightarrow> Result t = (None, 0))"
  by (simp add: Result_def State_def)

theorem Result_empty_unless_memory_done_witness:
  "Result example_request = (None, 0) \<and>
   Result (example_request\<lparr>m_pBuffer := Some [Some 7, None], m_BufferSize := 2,
     m_BufferLength := 1, m_State := HTTP_DONE\<rparr>) = (Some [Some 7, None], 1)"
  using Result_empty_unless_memory_done [of example_request]
    Result_empty_unless_memory_done [of "example_request\<lparr>m_pBuffer := Some [Some 7, None],
      m_BufferSize := 2, m_BufferLength := 1, m_State := HTTP_DONE\<rparr>"]
  by (simp add: example_request_def)

section \<open>Method-specific set-up\<close>

text \<open>
  Claim C7, as amended. For a \<^verbatim>\<open>POST_JSON\<close> request the set-up adds the line
  \<^verbatim>\<open>Content-Type: application/json\<close> at the end of the header list, after every line
  the caller added before, and hands the list so extended to libcurl with
  \<^verbatim>\<open>CURLOPT_HTTPHEADER\<close> as the last option it sets.
\<close>

theorem post_json_content_type_appended:
  assumes "m_Type t = POST_JSON"
  shows "m_pHeaders (fst (RunImpl_setup env t w)) =
      m_pHeaders t @ [''Content-Type: application/json''] \<and>
    (\<exists>es. snd (RunImpl_setup env t w) =
       w @ es @ [CURL_EASY_SETOPT
         (CURLOPT_HTTPHEADER (m_pHeaders t @ [''Content-Type: application/json'']))])"
proof -
  obtain es where o: "RunImpl_options env t w = w @ es"
    using RunImpl_options_log by blast
  show ?thesis
    using assms o
    by (simp add: RunImpl_setup_def RunImpl_method_def curl_easy_setopt_def Header_def
        curl_slist_append_def)
qed

theorem post_json_content_type_appended_witness:
  "m_pHeaders (fst (RunImpl_setup example_env
      (example_request\<lparr>m_Type := POST_JSON, m_pHeaders := [''X-Caller: 1'']\<rparr>) [])) =
     [''X-Caller: 1'', ''Content-Type: application/json'']"
  using post_json_content_type_appended [of
      "example_request\<lparr>m_Type := POST_JSON, m_pHeaders := [''X-Caller: 1'']\<rparr>" example_env "[]"]
  by (simp add: example_request_def)

text \<open>
  Claim C7 as stated says that the line is prepended. On a \<^verbatim>\<open>POST_JSON\<close> request to
  which the caller added the line \<^verbatim>\<open>X-Caller: 1\<close>, the set-up leaves the caller's line
  first and the content type second.
\<close>

theorem post_json_content_type_not_prepended:
  "m_pHeaders (fst (RunImpl_setup example_env
      (example_request\<lparr>m_Type := POST_JSON, m_pHeaders := [''X-Caller: 1'']\<rparr>) [])) =
     [''X-Caller: 1'', ''Content-Type: application/json''] \<and>
   m_pHeaders (fst (RunImpl_setup example_env
      (example_request\<lparr>m_Type := POST_JSON, m_pHeaders := [''X-Caller: 1'']\<rparr>) [])) \<noteq>
     ''Content-Type: application/json'' #
       m_pHeaders (example_request\<lparr>m_Type := POST_JSON, m_pHeaders := [''X-Caller: 1'']\<rparr>)"
  by (simp add: RunImpl_setup_def RunImpl_method_def RunImpl_options_def curl_easy_setopt_def
      Header_def curl_slist_append_def example_request_def Let_def)

text \<open>
  Claim C8. The set-up sets \<^verbatim>\<open>CURLOPT_POSTFIELDS\<close> and \<^verbatim>\<open>CURLOPT_POSTFIELDSIZE\<close> exactly
  for the methods \<^verbatim>\<open>POST\<close> and \<^verbatim>\<open>POST_JSON\<close>, with the request's body and body length.
  For \<^verbatim>\<open>HEAD\<close> it sets \<^verbatim>\<open>CURLOPT_NOBODY\<close> and neither of the two, whatever \<^verbatim>\<open>m_pBody\<close>
  holds.
\<close>

theorem body_attached_only_for_post:
  "\<exists>es. snd (RunImpl_setup env t w) = w @ es \<and>
     (CURL_EASY_SETOPT (CURLOPT_POSTFIELDS b) \<in> set es \<longleftrightarrow>
        (m_Type t = POST \<or> m_Type t = POST_JSON) \<and> b = m_pBody t) \<and>
     (CURL_EASY_SETOPT (CURLOPT_POSTFIELDSIZE n) \<in> set es \<longleftrightarrow>
        (m_Type t = POST \<or> m_Type t = POST_JSON) \<and> n = m_BodyLength t) \<and>
     (m_Type t = HEAD \<longrightarrow> CURL_EASY_SETOPT (CURLOPT_NOBODY 1) \<in> set es \<and>
        (\<forall>b'. CURL_EASY_SETOPT (CURLOPT_POSTFIELDS b') \<notin> set es) \<and>
        (\<forall>n'. CURL_EASY_SETOPT (CURLOPT_POSTFIELDSIZE n') \<notin> set es))"
proof -
  obtain es where o: "RunImpl_options env t w = w @ es"
    and nb: "\<forall>b. CURL_EASY_SETOPT (CURLOPT_POSTFIELDS b) \<notin> set es"
    and ns: "\<forall>n. CURL_EASY_SETOPT (CURLOPT_POSTFIELDSIZE n) \<notin> set es"
    using RunImpl_options_log by blast
  show ?thesis
  proof (cases "m_Type t")
    case GET
    then show ?thesis using o nb ns
      by (intro exI [of _ "es @ [CURL_EASY_SETOPT (CURLOPT_HTTPHEADER (m_pHeaders t))]"])
        (simp add: RunImpl_setup_def RunImpl_method_def curl_easy_setopt_def)
  next
    case HEAD
    then show ?thesis using o nb ns
      by (intro exI [of _ "es @ [CURL_EASY_SETOPT (CURLOPT_NOBODY 1),
            CURL_EASY_SETOPT (CURLOPT_HTTPHEADER (m_pHeaders t))]"])
        (simp add: RunImpl_setup_def RunImpl_method_def curl_easy_setopt_def)
  next
    case POST
    then show ?thesis using o nb ns
      by (intro exI [of _ "es @ [CURL_EASY_SETOPT (CURLOPT_POSTFIELDS (m_pBody t)),
            CURL_EASY_SETOPT (CURLOPT_POSTFIELDSIZE (m_BodyLength t)),
            CURL_EASY_SETOPT (CURLOPT_HTTPHEADER (m_pHeaders t))]"])
        (auto simp: RunImpl_setup_def RunImpl_method_def curl_easy_setopt_def)
  next
    case POST_JSON
    then show ?thesis using o nb ns
      by (intro exI [of _ "es @ [CURL_EASY_SETOPT (CURLOPT_POSTFIELDS (m_pBody t)),
            CURL_EASY_SETOPT (CURLOPT_POSTFIELDSIZE (m_BodyLength t)),
            CURL_EASY_SETOPT (CURLOPT_HTTPHEADER
              (m_pHeaders t @ [''Content-Type: application/json'']))]"])
        (auto simp: RunImpl_setup_def RunImpl_method_def curl_easy_setopt_def Header_def
          curl_slist_append_def)
  qed
qed

theorem body_attached_only_for_post_witness:
  "\<exists>es. snd (RunImpl_setup example_env
        (example_request\<lparr>m_Type := HEAD, m_pBody := Some [1, 2], m_BodyLength := 2\<rparr>) []) = es \<and>
     CURL_EASY_SETOPT (CURLOPT_POSTFIELDS (Some [1, 2])) \<notin> set es \<and>
     CURL_EASY_SETOPT (CURLOPT_POSTFIELDSIZE 2) \<notin> set es \<and>
     CURL_EASY_SETOPT (CURLOPT_NOBODY 1) \<in> set es"
  using body_attached_only_for_post [of example_env
      "example_request\<lparr>m_Type := HEAD, m_pBody := Some [1, 2], m_BodyLength := 2\<rparr>" "[]"
      "Some [1, 2]" 2]
  by (auto simp: example_request_def)

section \<open>The lock table\<close>

text \<open>
  Claim C9. For every integer resource kind, \<open>GetLockIndex\<close> returns the value itself
  when it lies in the recognised range from 0 (included) to \<^verbatim>\<open>CURL_LOCK_DATA_LAST\<close>
  (excluded), and the one fallback index \<^verbatim>\<open>CURL_LOCK_DATA_LAST\<close> otherwise. The
  function has no failing branch, and, the enumerator being non-negative, the index it
  returns is a valid position of the lock array \<^verbatim>\<open>gs_aLocks\<close>.
\<close>

theorem GetLockIndex_in_bounds:
  "GetLockIndex L Data = (if 0 \<le> Data \<and> Data < L then Data else L) \<and>
   (0 \<le> L \<longrightarrow> 0 \<le> GetLockIndex L Data \<and> GetLockIndex L Data < gs_aLocks_size L)"
  by (simp add: GetLockIndex_def gs_aLocks_size_def)

theorem GetLockIndex_in_bounds_witness:
  "GetLockIndex 7 3 = 3 \<and> GetLockIndex 7 7 = 7 \<and> GetLockIndex 7 (- 1) = 7 \<and>
   GetLockIndex 7 (- 1) < gs_aLocks_size 7"
  using GetLockIndex_in_bounds [of 7 3] GetLockIndex_in_bounds [of 7 7]
    GetLockIndex_in_bounds [of 7 "- 1"]
  by simp

section \<open>A successful empty response\<close>

text \<open>
  Claim C10. A memory-sink request that starts with no buffer, receives only chunks of
  length 0 and whose transfer succeeds ends in \<^verbatim>\<open>HTTP_DONE\<close> (the completion hook being
  that of the base class, which leaves a memory sink alone); its \<open>Result\<close> is the null
  pointer with length 0 and its \<open>ResultJson\<close> is no document, whatever the parser. Both
  are what any request that is not \<^verbatim>\<open>HTTP_DONE\<close> yields. Whatever the hook of the
  request's class, it is handed \<^verbatim>\<open>HTTP_DONE\<close> and a request whose buffer is still the null
  pointer with length 0.
\<close>

theorem empty_success_looks_unfinished:
  assumes mem: "\<not> m_WriteToFile t" and null: "m_pBuffer t = None" and len: "m_BufferLength t = 0"
    and handle: "curl_easy_init_ret env \<noteq> None"
    and empty: "\<forall>c \<in> set (transfer env). c = []"
    and ok: "curl_easy_perform_ret env = CURLE_OK"
  shows "(\<exists>t' w'. Run CHttpRequest_OnCompletion env t w = Some (t', w') \<and>
      m_State t' = HTTP_DONE \<and>
      Result t' = (None, 0) \<and> ResultJson json_parse t' = None \<and>
      (\<forall>u. m_State u \<noteq> HTTP_DONE \<longrightarrow>
         Result u = Result t' \<and> ResultJson json_parse u = ResultJson json_parse t')) \<and>
    (\<exists>t3 w3. Run_FinalState env t w = Some (HTTP_DONE, t3, w3) \<and>
      \<not> m_WriteToFile t3 \<and> m_pBuffer t3 = None \<and> m_BufferLength t3 = 0 \<and>
      (\<forall>hook. Run hook env t w =
         (case hook env HTTP_DONE t3 w3 of
            None \<Rightarrow> None
          | Some (s, t2, w2) \<Rightarrow> Some (t2\<lparr>m_State := s\<rparr>, w2 @ [M_STATE_STORE s]))))"
proof -
  have b: "BeforeInit env t w = (True, t, w)" using mem by (simp add: BeforeInit_def)
  obtain pHandle where h: "curl_easy_init_ret env = Some pHandle" using handle by auto
  obtain t2 w2 where su: "RunImpl_setup env t (w @ [CURL_EASY_INIT]) = (t2, w2)"
    by (cases "RunImpl_setup env t (w @ [CURL_EASY_INIT])") auto
  have s2: "\<not> m_WriteToFile t2" "m_pBuffer t2 = None" "m_BufferLength t2 = 0"
    using RunImpl_setup_sink [of env t "w @ [CURL_EASY_INIT]"] su mem null len by simp_all
  define t3 where "t3 = t2\<lparr>m_State := HTTP_RUNNING\<rparr>"
  have m3: "\<not> m_WriteToFile t3" using s2 by (simp add: t3_def)
  have p: "curl_easy_perform env t3 (w2 @ [M_STATE_STORE HTTP_RUNNING]) =
      Some (CURLE_OK, t3, w2 @ [M_STATE_STORE HTTP_RUNNING, CURL_EASY_PERFORM])"
    using deliver_all_empty [OF m3 empty] ok by (simp add: curl_easy_perform_def)
  have f: "Run_FinalState env t w = Some (HTTP_DONE, t3,
      w2 @ [M_STATE_STORE HTTP_RUNNING, CURL_EASY_PERFORM, CURL_EASY_CLEANUP (Some pHandle)])"
    using b h su p by (simp add: Run_FinalState_def RunImpl_def t3_def)
  define t' where "t' = t3\<lparr>m_State := HTTP_DONE\<rparr>"
  have r: "Run CHttpRequest_OnCompletion env t w =
      Some (t', w2 @ [M_STATE_STORE HTTP_RUNNING, CURL_EASY_PERFORM,
      CURL_EASY_CLEANUP (Some pHandle), M_STATE_STORE HTTP_DONE])"
    using f m3 by (simp add: Run_def CHttpRequest_OnCompletion_def OnCompletion_def t'_def)
  have res: "Result t' = (None, 0)"
    using s2 by (simp add: Result_def State_def t'_def t3_def)
  have js: "ResultJson json_parse t' = None" using res by (simp add: ResultJson_def)
  have "\<forall>u. m_State u \<noteq> HTTP_DONE \<longrightarrow>
      Result u = Result t' \<and> ResultJson json_parse u = ResultJson json_parse t'"
    using res by (simp add: Result_def State_def ResultJson_def)
  then have base: "\<exists>t' w'. Run CHttpRequest_OnCompletion env t w = Some (t', w') \<and>
      m_State t' = HTTP_DONE \<and>
      Result t' = (None, 0) \<and> ResultJson json_parse t' = None \<and>
      (\<forall>u. m_State u \<noteq> HTTP_DONE \<longrightarrow>
         Result u = Result t' \<and> ResultJson json_parse u = ResultJson json_parse t')"
    using r res js by (intro exI [of _ t'] exI) (simp add: t'_def)
  have "\<forall>hook. Run hook env t w =
         (case hook env HTTP_DONE t3
              (w2 @ [M_STATE_STORE HTTP_RUNNING, CURL_EASY_PERFORM,
                 CURL_EASY_CLEANUP (Some pHandle)]) of
            None \<Rightarrow> None
          | Some (s, t2, w2) \<Rightarrow> Some (t2\<lparr>m_State := s\<rparr>, w2 @ [M_STATE_STORE s]))"
    using f by (simp add: Run_def)
  then have every: "\<exists>t3 w3. Run_FinalState env t w = Some (HTTP_DONE, t3, w3) \<and>
      \<not> m_WriteToFile t3 \<and> m_pBuffer t3 = None \<and> m_BufferLength t3 = 0 \<and>
      (\<forall>hook. Run hook env t w =
         (case hook env HTTP_DONE t3 w3 of
            None \<Rightarrow> None
          | Some (s, t2, w2) \<Rightarrow> Some (t2\<lparr>m_State := s\<rparr>, w2 @ [M_STATE_STORE s])))"
    using f s2
    by (intro exI [of _ t3] exI [of _ "w2 @ [M_STATE_STORE HTTP_RUNNING, CURL_EASY_PERFORM,
          CURL_EASY_CLEANUP (Some pHandle)]"])
      (simp add: t3_def)
  show ?thesis using base every by (rule conjI)
qed

theorem empty_success_looks_unfinished_witness:
  "\<exists>t' w'. Run CHttpRequest_OnCompletion (example_env\<lparr>transfer := [[], []]\<rparr>)
        example_request [] = Some (t', w') \<and>
      m_State t' = HTTP_DONE \<and> Result t' = (None, 0) \<and>
      ResultJson (\<lambda>b n. Some (take n b)) t' = None \<and> Result example_request = Result t'"
proof -
  have a: "\<not> m_WriteToFile example_request" "m_pBuffer example_request = None"
    "m_BufferLength example_request = 0"
    "curl_easy_init_ret (example_env\<lparr>transfer := [[], []]\<rparr>) \<noteq> None"
    "\<forall>c \<in> set (transfer (example_env\<lparr>transfer := [[], []]\<rparr>)). c = []"
    "curl_easy_perform_ret (example_env\<lparr>transfer := [[], []]\<rparr>) = CURLE_OK"
    by (simp_all add: example_request_def example_env_def CURLE_OK_def)
  have q: "m_State example_request \<noteq> HTTP_DONE" by (simp add: example_request_def)
  from empty_success_looks_unfinished [OF a, of "[]" "\<lambda>b n. Some (take n b)"] q
  show ?thesis by blast
qed

end
